theory Spec2Isabelle
  imports Main "HOL-Library.Word"
begin

unbundle bit_operations_syntax

section \<open>Bytes, strings and errors\<close>

type_synonym byte = "8 word"

text \<open>
  A Go \<^verbatim>\<open>string\<close> is a byte sequence; texts are kept as \<^typ>\<open>string\<close> and wire data as
  \<^typ>\<open>byte list\<close>. The conversions \<^verbatim>\<open>[]byte(s)\<close> and \<^verbatim>\<open>string(b)\<close> are written out.
\<close>

definition byte_of_char :: "char \<Rightarrow> byte" where
  "byte_of_char c = word_of_nat (of_char c)"

definition char_of_byte :: "byte \<Rightarrow> char" where
  "char_of_byte w = char_of (unat w)"

text \<open>
  Go error values. The sentinels of the standard library and of package socks5 are
  constructors of their own; \<open>ErrorString\<close> is \<^verbatim>\<open>errors.New\<close> / \<^verbatim>\<open>fmt.Errorf\<close>;
  \<open>OpError op text sys\<close> is a \<^verbatim>\<open>*net.OpError\<close> with its \<^verbatim>\<open>Op\<close>, the text its
  \<^verbatim>\<open>Error()\<close> method prints and, when its \<^verbatim>\<open>Err\<close> is an \<^verbatim>\<open>*os.SyscallError\<close>, that
  error's \<^verbatim>\<open>Syscall\<close> and the number \<^verbatim>\<open>errno(se.Err)\<close>; \<open>Panic\<close> is a run-time panic.
\<close>

datatype error =
    EOF
  | ErrUnexpectedEOF
  | errStringTooLong
  | errNoSupportedAuth
  | errUnrecognizedAddrType
  | Canceled
  | DeadlineExceeded
  | ErrInvalidUnreadByte
  | ErrSyntax
  | ErrRange
  | ErrorString string
  | OpError string string "(string \<times> nat) option"
  | Panic string

fun Error :: "error \<Rightarrow> string" where
  "Error EOF = ''EOF''"
| "Error ErrUnexpectedEOF = ''unexpected EOF''"
| "Error errStringTooLong = ''string too long''"
| "Error errNoSupportedAuth = ''no supported authentication mechanism''"
| "Error errUnrecognizedAddrType = ''unrecognized address type''"
| "Error Canceled = ''context canceled''"
| "Error DeadlineExceeded = ''context deadline exceeded''"
| "Error ErrInvalidUnreadByte = ''bufio: invalid use of UnreadByte''"
| "Error ErrSyntax = ''invalid syntax''"
| "Error ErrRange = ''value out of range''"
| "Error (ErrorString s) = s"
| "Error (OpError opn text sys) = text"
| "Error (Panic s) = s"

text \<open>\<^verbatim>\<open>strings.HasPrefix\<close> and \<^verbatim>\<open>strings.Contains\<close>.\<close>

fun HasPrefix :: "string \<Rightarrow> string \<Rightarrow> bool" where
  "HasPrefix s [] = True"
| "HasPrefix [] (p # ps) = False"
| "HasPrefix (c # s) (p # ps) = (if c = p then HasPrefix s ps else False)"

fun Contains :: "string \<Rightarrow> string \<Rightarrow> bool" where
  "Contains [] substr = HasPrefix [] substr"
| "Contains (c # s) substr = (if HasPrefix (c # s) substr then True else Contains s substr)"

section \<open>SOCKS5 reply codes\<close>

type_synonym reply = byte

definition successReply :: reply where "successReply = 0x00"
definition serverFailure :: reply where "serverFailure = 0x01"
definition ruleFailure :: reply where "ruleFailure = 0x02"
definition networkUnreachable :: reply where "networkUnreachable = 0x03"
definition hostUnreachable :: reply where "hostUnreachable = 0x04"
definition connectionRefused :: reply where "connectionRefused = 0x05"
definition ttlExpired :: reply where "ttlExpired = 0x06"
definition commandNotSupported :: reply where "commandNotSupported = 0x07"
definition addrTypeNotSupported :: reply where "addrTypeNotSupported = 0x08"

text \<open>\<^verbatim>\<open>errToReply\<close>; a nil error is \<open>None\<close>.\<close>

definition errToReply :: "error option \<Rightarrow> reply" where
  "errToReply err =
     (case err of
        None \<Rightarrow> successReply
      | Some e \<Rightarrow>
          (let msg = Error e in
           if Contains msg ''refused'' then connectionRefused
           else if Contains msg ''network is unreachable'' then networkUnreachable
           else hostUnreachable))"

section \<open>Tunnel (package statute)\<close>

text \<open>
  \<^verbatim>\<open>isClosedConnError\<close>; \<^verbatim>\<open>runtime.GOOS\<close> is the parameter \<open>goos\<close>.
\<close>

definition isClosedConnError :: "string \<Rightarrow> error option \<Rightarrow> bool" where
  "isClosedConnError goos err =
     (case err of
        None \<Rightarrow> False
      | Some e \<Rightarrow>
          if Contains (Error e) ''use of closed network connection'' then True
          else if goos = ''windows'' then
            (case e of
               OpError opn text (Some (sc, n)) \<Rightarrow>
                 (if opn = ''read'' then
                    (if sc = ''wsarecv'' then (if n = 10054 then True else n = 10053) else False)
                  else False)
             | _ \<Rightarrow> False)
          else False)"

text \<open>
  \<^verbatim>\<open>tunnelErr\<close> is an array of five errors; \<^verbatim>\<open>FirstError\<close> ranges over it in order and
  returns from inside the loop at the first non-nil entry.
\<close>

type_synonym tunnelErr = "error option list"

fun FirstError :: "string \<Rightarrow> tunnelErr \<Rightarrow> error option" where
  "FirstError goos [] = None"
| "FirstError goos (None # t) = FirstError goos t"
| "FirstError goos (Some e # t) =
     (if isClosedConnError goos (Some e) then None else Some e)"

text \<open>
  An \<^verbatim>\<open>io.ReadWriteCloser\<close> as far as \<^verbatim>\<open>Tunnel\<close> touches it after the wait: how often
  it has been closed and what its \<^verbatim>\<open>Close\<close> returns.
\<close>

record rwc =
  closes :: nat
  closeErr :: "error option"

definition rwc_Close :: "rwc \<Rightarrow> error option \<times> rwc" where
  "rwc_Close c = (closeErr c, c\<lparr>closes := Suc (closes c)\<rparr>)"

text \<open>
  \<^verbatim>\<open>Tunnel\<close> from the point where \<^verbatim>\<open><-ctx.Done()\<close> returns. The two copies run in
  goroutines of their own: \<open>copy0\<close> and \<open>copy1\<close> are the values of \<^verbatim>\<open>errs[0]\<close> and
  \<^verbatim>\<open>errs[1]\<close> that \<^verbatim>\<open>FirstError\<close> reads (nil for a copy that ended without error
  or has not stored its result yet), \<open>ctxErr\<close> is what \<^verbatim>\<open>ctx.Err()\<close> returns.
\<close>

definition Tunnel ::
  "string \<Rightarrow> error option \<Rightarrow> error option \<Rightarrow> error option \<Rightarrow> rwc \<Rightarrow> rwc
     \<Rightarrow> error option \<times> rwc \<times> rwc" where
  "Tunnel goos copy0 copy1 ctxErr source destination =
     (let (e2, source') = rwc_Close source;
          (e3, destination') = rwc_Close destination;
          e4 = ctxErr;
          e4' = (if e4 = Some Canceled then None else e4)
      in (FirstError goos [copy0, copy1, e2, e3, e4'], source', destination'))"

section \<open>Address codec (package socks5)\<close>

text \<open>
  \<^verbatim>\<open>address\<close>: a nil \<^verbatim>\<open>net.IP\<close> is \<open>None\<close>. The reader of \<^verbatim>\<open>readAddr\<close> and the
  writer of \<^verbatim>\<open>writeAddr\<close> are a \<^verbatim>\<open>bytes.Buffer\<close>, given by its unread bytes and by
  its contents: a read from an empty buffer is \<^verbatim>\<open>io.EOF\<close>, a write appends and does
  not fail. \<open>ReadFull\<close> is \<^verbatim>\<open>io.ReadFull\<close> on such a buffer, \<open>Uint16\<close> and
  \<open>PutUint16\<close> are those of \<^verbatim>\<open>binary.BigEndian\<close>, \<open>To4\<close>, \<open>To16\<close> and \<open>IP_Equal\<close>
  are the methods of \<^verbatim>\<open>net.IP\<close>, \<open>Atoi\<close> is \<^verbatim>\<open>strconv.Atoi\<close> for a 64-bit
  \<^verbatim>\<open>int\<close>; the result of \<^verbatim>\<open>net.SplitHostPort\<close> is a parameter of \<open>splitHostPort\<close>.
  \<open>readPort\<close> is the tail of \<^verbatim>\<open>readAddr\<close> after its switch.
\<close>

definition ipv4Address :: byte where "ipv4Address = 0x01"
definition fqdnAddress :: byte where "fqdnAddress = 0x03"
definition ipv6Address :: byte where "ipv6Address = 0x04"

record address =
  Name :: string
  IP :: "byte list option"
  Port :: int

definition ReadFull :: "byte list \<Rightarrow> nat \<Rightarrow> error + byte list \<times> byte list" where
  "ReadFull r n =
     (if n = 0 then Inr ([], r)
      else if r = [] then Inl EOF
      else if length r < n then Inl ErrUnexpectedEOF
      else Inr (take n r, drop n r))"

definition Uint16 :: "byte list \<Rightarrow> 16 word" where
  "Uint16 b = ucast (b ! 1) OR push_bit 8 (ucast (b ! 0))"

definition PutUint16 :: "16 word \<Rightarrow> byte list" where
  "PutUint16 v = [ucast (drop_bit 8 v), ucast v]"

definition readPort :: "address \<Rightarrow> byte list \<Rightarrow> error + address \<times> byte list" where
  "readPort a r =
     (case ReadFull r 2 of
        Inl e \<Rightarrow> Inl e
      | Inr (port, r') \<Rightarrow> Inr (a\<lparr>Port := uint (Uint16 port)\<rparr>, r'))"

definition readAddr :: "byte list \<Rightarrow> error + address \<times> byte list" where
  "readAddr r =
     (case r of
        [] \<Rightarrow> Inl EOF
      | t # r1 \<Rightarrow>
          if t = ipv4Address then
            (case ReadFull r1 4 of
               Inl e \<Rightarrow> Inl e
             | Inr (addr, r2) \<Rightarrow> readPort \<lparr>Name = [], IP = Some addr, Port = 0\<rparr> r2)
          else if t = ipv6Address then
            (case ReadFull r1 16 of
               Inl e \<Rightarrow> Inl e
             | Inr (addr, r2) \<Rightarrow> readPort \<lparr>Name = [], IP = Some addr, Port = 0\<rparr> r2)
          else if t = fqdnAddress then
            (case r1 of
               [] \<Rightarrow> Inl EOF
             | l # r2 \<Rightarrow>
                 (case ReadFull r2 (unat l) of
                    Inl e \<Rightarrow> Inl e
                  | Inr (fqdn, r3) \<Rightarrow>
                      readPort \<lparr>Name = map char_of_byte fqdn, IP = None, Port = 0\<rparr> r3))
          else Inl errUnrecognizedAddrType)"

definition v4InV6Prefix :: "byte list" where
  "v4InV6Prefix = [0, 0, 0, 0, 0, 0, 0, 0, 0, 0, 0xff, 0xff]"

definition To4 :: "byte list \<Rightarrow> byte list option" where
  "To4 ip =
     (if length ip = 4 then Some ip
      else if length ip = 16 \<and> take 12 ip = v4InV6Prefix then Some (drop 12 ip)
      else None)"

definition To16 :: "byte list \<Rightarrow> byte list option" where
  "To16 ip =
     (if length ip = 4 then Some (v4InV6Prefix @ ip)
      else if length ip = 16 then Some ip
      else None)"

definition IP_Equal :: "byte list \<Rightarrow> byte list \<Rightarrow> bool" where
  "IP_Equal ip x =
     (if length ip = length x then ip = x
      else if length ip = 4 \<and> length x = 16 then take 12 x = v4InV6Prefix \<and> ip = drop 12 x
      else if length ip = 16 \<and> length x = 4 then take 12 ip = v4InV6Prefix \<and> drop 12 ip = x
      else False)"

definition writeAddr :: "byte list \<Rightarrow> address option \<Rightarrow> error + byte list" where
  "writeAddr w addr =
     (case addr of
        None \<Rightarrow> Inr (w @ [ipv4Address, 0, 0, 0, 0, 0, 0])
      | Some a \<Rightarrow>
          (case (case IP a of
                   Some ip \<Rightarrow>
                     (case To4 ip of
                        Some ip4 \<Rightarrow> Inr (w @ [ipv4Address] @ ip4)
                      | None \<Rightarrow>
                          (case To16 ip of
                             Some ip6 \<Rightarrow> Inr (w @ [ipv6Address] @ ip6)
                           | None \<Rightarrow> Inr (w @ [ipv4Address, 0, 0, 0, 0])))
                 | None \<Rightarrow>
                     if Name a = [] then Inr (w @ [ipv4Address, 0, 0, 0, 0])
                     else if 255 < length (Name a) then Inl errStringTooLong
                     else Inr (w @ [fqdnAddress, of_nat (length (Name a))]
                                 @ map byte_of_char (Name a)))
           of
             Inl e \<Rightarrow> Inl e
           | Inr w1 \<Rightarrow> Inr (w1 @ PutUint16 (word_of_int (Port a)))))"

fun digitsVal :: "int \<Rightarrow> string \<Rightarrow> int" where
  "digitsVal acc [] = acc"
| "digitsVal acc (c # cs) = digitsVal (acc * 10 + (of_char c - 48)) cs"

definition isDigit :: "char \<Rightarrow> bool" where
  "isDigit c = (if (48::nat) \<le> of_char c then of_char c \<le> (57::nat) else False)"

definition Atoi :: "string \<Rightarrow> error + int" where
  "Atoi s =
     (let neg = (case s of [] \<Rightarrow> False | c # cs \<Rightarrow> c = CHR ''-'');
          ds = (case s of [] \<Rightarrow> []
                | c # cs \<Rightarrow> if c = CHR ''-'' then cs else if c = CHR ''+'' then cs else s)
      in if ds = [] then Inl ErrSyntax
         else if list_all isDigit ds then
           (let v = (if neg then - digitsVal 0 ds else digitsVal 0 ds)
            in if v < - (2 ^ 63) then Inl ErrRange
               else if 2 ^ 63 - 1 < v then Inl ErrRange
               else Inr v)
         else Inl ErrSyntax)"

definition splitHostPort ::
  "(string \<Rightarrow> error + string \<times> string) \<Rightarrow> string \<Rightarrow> error + string \<times> int" where
  "splitHostPort SplitHostPort addr =
     (case SplitHostPort addr of
        Inl e \<Rightarrow> Inl e
      | Inr (host, port) \<Rightarrow>
          (case Atoi port of
             Inl e \<Rightarrow> Inl e
           | Inr portnum \<Rightarrow>
               if 0 > portnum then Inl (ErrorString (''port number out of range '' @ port))
               else if portnum > 0xffff then Inl (ErrorString (''port number out of range '' @ port))
               else Inr (host, portnum)))"


section \<open>SOCKS5 UDP relay connection\<close>

text \<open>
  \<^verbatim>\<open>strconv.Itoa\<close>, \<^verbatim>\<open>net.JoinHostPort\<close>, and the two \<^verbatim>\<open>String\<close> methods that
  \<^verbatim>\<open>udpCustomConn.Read\<close> compares: \<^verbatim>\<open>(*address).String\<close> of this package and
  \<^verbatim>\<open>(*net.UDPAddr).String\<close> (the zone is always empty here). The text that
  \<^verbatim>\<open>net.IP.String\<close> prints for an address is the parameter \<open>ipstr\<close>.
\<close>

fun digits :: "nat \<Rightarrow> string" where
  "digits n =
     (if n < 10 then [''0123456789'' ! n]
      else digits (n div 10) @ [''0123456789'' ! (n mod 10)])"

definition Itoa :: "int \<Rightarrow> string" where
  "Itoa i = (if i < 0 then CHR ''-'' # digits (nat (- i)) else digits (nat i))"

definition JoinHostPort :: "string \<Rightarrow> string \<Rightarrow> string" where
  "JoinHostPort host port =
     (if CHR '':'' \<in> set host then ''['' @ host @ '']:'' @ port else host @ '':'' @ port)"

definition address_Address :: "(byte list \<Rightarrow> string) \<Rightarrow> address \<Rightarrow> string" where
  "address_Address ipstr a =
     (let port = Itoa (Port a)
      in case IP a of
           None \<Rightarrow> JoinHostPort (Name a) port
         | Some ip \<Rightarrow>
             if 0 \<noteq> length ip then JoinHostPort (ipstr ip) port
             else JoinHostPort (Name a) port)"

definition address_String :: "(byte list \<Rightarrow> string) \<Rightarrow> address option \<Rightarrow> string" where
  "address_String ipstr a =
     (case a of None \<Rightarrow> ''<nil>'' | Some a' \<Rightarrow> address_Address ipstr a')"

record UDPAddr =
  UDP_IP :: "byte list option"
  UDP_Port :: int

definition ipEmptyString :: "(byte list \<Rightarrow> string) \<Rightarrow> byte list option \<Rightarrow> string" where
  "ipEmptyString ipstr ip =
     (case ip of None \<Rightarrow> [] | Some bs \<Rightarrow> if length bs = 0 then [] else ipstr bs)"

definition UDPAddr_String :: "(byte list \<Rightarrow> string) \<Rightarrow> UDPAddr \<Rightarrow> string" where
  "UDPAddr_String ipstr a = JoinHostPort (ipEmptyString ipstr (UDP_IP a)) (Itoa (UDP_Port a))"

text \<open>
  \<^verbatim>\<open>writeAddrWithStr\<close>; \<^verbatim>\<open>net.ParseIP\<close> is the parameter \<open>ParseIP\<close>.
\<close>

definition writeAddrWithStr ::
  "(string \<Rightarrow> error + string \<times> string) \<Rightarrow> (string \<Rightarrow> byte list option)
     \<Rightarrow> byte list \<Rightarrow> string \<Rightarrow> error + byte list" where
  "writeAddrWithStr SplitHostPort ParseIP w addr =
     (case splitHostPort SplitHostPort addr of
        Inl e \<Rightarrow> Inl e
      | Inr (host, port) \<Rightarrow>
          (case ParseIP host of
             Some ip \<Rightarrow> writeAddr w (Some \<lparr>Name = [], IP = Some ip, Port = port\<rparr>)
           | None \<Rightarrow> writeAddr w (Some \<lparr>Name = host, IP = None, Port = port\<rparr>)))"

definition maxUdpPacket :: nat where
  "maxUdpPacket = 65535 - 28"

record readStruct =
  data :: "byte list"
  err :: "error option"

text \<open>
  The relay connection. \<open>PacketConn\<close> is the embedded UDP socket as far as closing goes,
  \<open>wire\<close> the datagrams handed to its \<^verbatim>\<open>WriteTo\<close> (payload and destination, oldest
  first), \<open>frc\<close> the number of values sent on the first-read channel. The packet queue
  is a channel: what \<^verbatim>\<open>asyncReadPackets\<close> sends is its output here, what
  \<^verbatim>\<open>Read\<close> receives is its argument.
\<close>

record udpCustomConn =
  PacketConn :: rwc
  wire :: "(byte list \<times> UDPAddr) list"
  assocTCPConn :: rwc
  lock :: bool
  sourceAddr :: "UDPAddr option"
  targetAddr :: "UDPAddr option"
  replyPrefix :: "byte list option"
  buf :: "byte list"
  firstRead :: bool
  frc :: nat

text \<open>\<^verbatim>\<open>copy(dst, src)\<close>: the destination after the copy; \<open>min\<close> of the lengths is copied.\<close>

definition copy_bytes :: "byte list \<Rightarrow> byte list \<Rightarrow> byte list" where
  "copy_bytes dst src = take (length dst) src @ drop (length src) dst"


text \<open>
  \<^verbatim>\<open>udpCustomConn.Read\<close>: \<open>read\<close> is the record received from the packet queue, \<open>b\<close>
  the caller's buffer. The result is the returned count or error, the caller's buffer
  afterwards, and the connection afterwards. The mutex is taken at entry and released by
  the deferred unlock on every path.
\<close>

definition udpCustomConn_Read ::
  "(byte list \<Rightarrow> string) \<Rightarrow> udpCustomConn \<Rightarrow> readStruct \<Rightarrow> byte list
     \<Rightarrow> (error + nat) \<times> byte list \<times> udpCustomConn" where
  "udpCustomConn_Read ipstr cc read b =
     (case err read of
        Some e \<Rightarrow> (Inl e, b, cc)
      | None \<Rightarrow>
          (let packetData = data read
           in if length packetData < 3
              then (Inl (ErrorString ''received packet too small''), b, cc)
              else
                (case readAddr (drop 3 packetData) of
                   Inl e \<Rightarrow> (Inl e, b, cc)
                 | Inr (target, reader) \<Rightarrow>
                     (let latched = (case targetAddr cc of
                                       None \<Rightarrow> \<lparr>UDP_IP = IP target, UDP_Port = Port target\<rparr>
                                     | Some t \<Rightarrow> t);
                          cc1 = cc\<lparr>targetAddr := Some latched\<rparr>
                      in if address_String ipstr (Some target) = UDPAddr_String ipstr latched
                         then (Inr (length reader), copy_bytes b reader,
                               cc1\<lparr>firstRead := True,
                                   frc := (if firstRead cc1 then frc cc1 else Suc (frc cc1))\<rparr>)
                         else (Inl (ErrorString (''ignore non-target addresses ''
                                       @ address_String ipstr (Some target))), b, cc1)))))"

text \<open>
  \<^verbatim>\<open>udpCustomConn.Write\<close>: \<open>b\<close> is the caller's payload. The reply prefix is built on
  the first call, in a buffer that starts as three zero bytes. The last statement copies
  from \<^verbatim>\<open>cc.buf\<close> into \<open>b\<close>; there is no call of \<^verbatim>\<open>WriteTo\<close>. Calling \<^verbatim>\<open>String\<close> on
  a nil \<^verbatim>\<open>targetAddr\<close> and slicing beyond \<^verbatim>\<open>cc.buf\<close> panic.
\<close>

definition udpCustomConn_Write ::
  "(byte list \<Rightarrow> string) \<Rightarrow> (string \<Rightarrow> error + string \<times> string) \<Rightarrow> (string \<Rightarrow> byte list option)
     \<Rightarrow> udpCustomConn \<Rightarrow> byte list \<Rightarrow> (error + nat) \<times> byte list \<times> udpCustomConn" where
  "udpCustomConn_Write ipstr SplitHostPort ParseIP cc b =
     (case (case replyPrefix cc of
              Some pre \<Rightarrow> Inr (pre, cc)
            | None \<Rightarrow>
                (case targetAddr cc of
                   None \<Rightarrow> Inl (Panic ''invalid memory address or nil pointer dereference'')
                 | Some t \<Rightarrow>
                     (case writeAddrWithStr SplitHostPort ParseIP [0, 0, 0]
                             (UDPAddr_String ipstr t) of
                        Inl e \<Rightarrow> Inl e
                      | Inr bs \<Rightarrow> Inr (bs, cc\<lparr>replyPrefix := Some bs\<rparr>))))
      of
        Inl e \<Rightarrow> (Inl e, b, cc)
      | Inr (pre, cc1) \<Rightarrow>
          if length (buf cc1) < length pre + length b
          then (Inl (Panic ''slice bounds out of range''), b, cc1)
          else (Inr (length b),
                copy_bytes b (take (length b) (drop (length pre) (buf cc1))), cc1))"

text \<open>
  \<^verbatim>\<open>udpCustomConn.Close\<close>. The method locks the mutex and then calls
  \<^verbatim>\<open>cc.Close()\<close>, which is this method again, not the embedded socket's
  \<^verbatim>\<open>Close\<close>. A \<^verbatim>\<open>sync.Mutex\<close> is not reentrant: \<^verbatim>\<open>Lock\<close> on a held mutex waits
  for an unlock, which the goroutine that holds it and waits cannot give. Not returning
  is the value \<open>None\<close>.
\<close>

partial_function (option) udpCustomConn_Close ::
  "udpCustomConn \<Rightarrow> (error option \<times> udpCustomConn) option" where
  "udpCustomConn_Close cc =
     (if lock cc then None
      else Option.bind (udpCustomConn_Close (cc\<lparr>lock := True\<rparr>))
             (\<lambda>(udpErr, cc1).
                let (tcpErr, tcp') = rwc_Close (assocTCPConn cc1);
                    cc2 = cc1\<lparr>assocTCPConn := tcp', lock := False\<rparr>
                in Some (case udpErr of Some e \<Rightarrow> udpErr | None \<Rightarrow> tcpErr, cc2)))"

section \<open>Multiplexer (package mixed)\<close>

text \<open>
  A \<^verbatim>\<open>net.Conn\<close> as a reader: the results of its coming \<^verbatim>\<open>Read\<close> calls, each an
  error or the bytes the socket then holds; a shorter buffer takes a prefix and leaves
  the rest. The \<^verbatim>\<open>bufio.Reader\<close> of the standard library is given by its source
  \<open>b_rd\<close>, the filled part \<^verbatim>\<open>buf[0:w]\<close> of its buffer, its read index, its pending
  error and its last byte (\<open>None\<close> is -1). A read call is given the length of the
  caller's slice and returns the bytes stored there with the error.
\<close>

type_synonym conn = "(error + byte list) list"

fun conn_Read :: "conn \<Rightarrow> nat \<Rightarrow> (byte list \<times> error option) \<times> conn" where
  "conn_Read [] n = (([], Some EOF), [])"
| "conn_Read (Inl e # rest) n = (([], Some e), rest)"
| "conn_Read (Inr chunk # rest) n =
     (if length chunk \<le> n then ((chunk, None), rest)
      else ((take n chunk, None), Inr (drop n chunk) # rest))"

definition defaultBufSize :: nat where
  "defaultBufSize = 4096"

record bufio_Reader =
  b_rd :: conn
  b_buf :: "byte list"
  b_r :: nat
  b_err :: "error option"
  b_lastByte :: "byte option"

definition NewReader :: "conn \<Rightarrow> bufio_Reader" where
  "NewReader c = \<lparr>b_rd = c, b_buf = [], b_r = 0, b_err = None, b_lastByte = None\<rparr>"

definition readErr :: "bufio_Reader \<Rightarrow> error option \<times> bufio_Reader" where
  "readErr b = (b_err b, b\<lparr>b_err := None\<rparr>)"

definition copy_out :: "bufio_Reader \<Rightarrow> nat \<Rightarrow> (byte list \<times> error option) \<times> bufio_Reader" where
  "copy_out b n =
     (let bs = take n (drop (b_r b) (b_buf b));
          r' = b_r b + length bs
      in ((bs, None), b\<lparr>b_r := r', b_lastByte := Some (b_buf b ! (r' - 1))\<rparr>))"

definition bufio_Read :: "bufio_Reader \<Rightarrow> nat \<Rightarrow> (byte list \<times> error option) \<times> bufio_Reader" where
  "bufio_Read b n =
     (if n = 0 then
        (if b_r b < length (b_buf b) then (([], None), b)
         else (let (e, b') = readErr b in (([], e), b')))
      else if b_r b = length (b_buf b) then
        (case b_err b of
           Some e \<Rightarrow> (let (e', b') = readErr b in (([], e'), b'))
         | None \<Rightarrow>
             if defaultBufSize \<le> n then
               (let ((bs, e), rd') = conn_Read (b_rd b) n;
                    b1 = b\<lparr>b_rd := rd', b_err := e\<rparr>;
                    b2 = (if bs = [] then b1 else b1\<lparr>b_lastByte := Some (last bs)\<rparr>);
                    (e', b3) = readErr b2
                in ((bs, e'), b3))
             else
               (let ((bs, e), rd') = conn_Read (b_rd b) defaultBufSize;
                    b1 = b\<lparr>b_rd := rd', b_buf := bs, b_r := 0, b_err := e\<rparr>
                in if bs = [] then (let (e', b2) = readErr b1 in (([], e'), b2))
                   else copy_out b1 n))
      else copy_out b n)"

definition UnreadByte :: "bufio_Reader \<Rightarrow> error + bufio_Reader" where
  "UnreadByte b =
     (case b_lastByte b of
        None \<Rightarrow> Inl ErrInvalidUnreadByte
      | Some lb \<Rightarrow>
          if b_r b = 0 \<and> 0 < length (b_buf b) then Inl ErrInvalidUnreadByte
          else if 0 < b_r b then
            Inr (b\<lparr>b_r := b_r b - 1, b_buf := (b_buf b)[b_r b - 1 := lb], b_lastByte := None\<rparr>)
          else Inr (b\<lparr>b_buf := [lb], b_lastByte := None\<rparr>))"

record SwitchConn =
  reader :: bufio_Reader

definition NewSwitchConn :: "conn \<Rightarrow> SwitchConn" where
  "NewSwitchConn c = \<lparr>reader = NewReader c\<rparr>"

definition SwitchConn_Read :: "SwitchConn \<Rightarrow> nat \<Rightarrow> (byte list \<times> error option) \<times> SwitchConn" where
  "SwitchConn_Read c n = (let (res, rdr) = bufio_Read (reader c) n in (res, c\<lparr>reader := rdr\<rparr>))"

datatype engine = socks5Proxy | socks4Proxy | httpProxy

definition handleConnection :: "conn \<Rightarrow> error + engine \<times> SwitchConn" where
  "handleConnection c =
     (let switchConn = NewSwitchConn c;
          ((bs, err), switchConn1) = SwitchConn_Read switchConn 1;
          buf = copy_bytes [0] bs
      in case err of
           Some e \<Rightarrow> Inl e
         | None \<Rightarrow>
             (case UnreadByte (reader switchConn1) of
                Inl e \<Rightarrow> Inl e
              | Inr rdr \<Rightarrow>
                  (let switchConn2 = switchConn1\<lparr>reader := rdr\<rparr>
                   in if buf ! 0 = 5 then Inr (socks5Proxy, switchConn2)
                      else if buf ! 0 = 4 then Inr (socks4Proxy, switchConn2)
                      else Inr (httpProxy, switchConn2))))"


section \<open>HTTP handler path (package http)\<close>

text \<open>
  \<^verbatim>\<open>customConn\<close>: \<open>req\<close> is the outcome of \<^verbatim>\<open>c.req.Write(buf)\<close>, an error or the
  bytes of the serialized request; a nil \<^verbatim>\<open>initialData\<close> is the empty list.
  \<open>customConn_Reads\<close> is a caller reading repeatedly with the given buffer lengths.
\<close>

record customConn =
  Conn :: conn
  req :: "error + byte list"
  initialData :: "byte list"
  once :: bool

definition customConn_Read :: "customConn \<Rightarrow> nat \<Rightarrow> (byte list \<times> error option) \<times> customConn" where
  "customConn_Read c lenp =
     (let c1 = (if once c then c
                else (case req c of
                        Inl e \<Rightarrow> c\<lparr>once := True\<rparr>
                      | Inr bs \<Rightarrow> c\<lparr>once := True, initialData := bs\<rparr>))
      in if 0 < length (initialData c1)
         then ((take lenp (initialData c1), None), c1\<lparr>initialData := []\<rparr>)
         else (let (res, conn') = conn_Read (Conn c1) lenp in (res, c1\<lparr>Conn := conn'\<rparr>)))"

fun customConn_Reads :: "customConn \<Rightarrow> nat list \<Rightarrow> byte list list \<times> customConn" where
  "customConn_Reads c [] = ([], c)"
| "customConn_Reads c (n # ns) =
     (let ((bs, e), c1) = customConn_Read c n;
          (rest, c2) = customConn_Reads c1 ns
      in (bs # rest, c2))"

section \<open>Properties\<close>

subsection \<open>Substring search\<close>

lemma HasPrefix_iff: "HasPrefix s p \<longleftrightarrow> (\<exists>t. s = p @ t)"
  by (induction s p rule: HasPrefix.induct) auto

lemma Contains_iff: "Contains s sub \<longleftrightarrow> (\<exists>a b. s = a @ sub @ b)"
proof (induction s)
  case Nil
  then show ?case by (cases sub) auto
next
  case (Cons c s)
  show ?case
  proof
    assume "Contains (c # s) sub"
    then show "\<exists>a b. c # s = a @ sub @ b"
      using Cons.IH
      by (auto simp: HasPrefix_iff split: if_splits intro: exI[of _ "[]"]) (metis append_Cons)
  next
    assume "\<exists>a b. c # s = a @ sub @ b"
    then obtain a b where ab: "c # s = a @ sub @ b" by blast
    show "Contains (c # s) sub"
    proof (cases a)
      case Nil
      with ab have "HasPrefix (c # s) sub" by (auto simp: HasPrefix_iff)
      then show ?thesis by simp
    next
      case (Cons x a')
      with ab have "s = a' @ sub @ b" by simp
      then show ?thesis using Cons.IH by auto
    qed
  qed
qed

subsection \<open>Reply codes\<close>

text \<open>
  C6 (as amended). The reply code is 0x00 for a nil error; for a non-nil error it is 0x05
  exactly when the message contains ``refused'' (with or without ``connection'' before
  it), 0x03 exactly when the message does not contain ``refused'' and contains
  ``network is unreachable'', and 0x04 exactly when it contains neither.
\<close>

theorem errToReply_table:
  "errToReply None = 0x00 \<and>
   (errToReply (Some e) = 0x05 \<longleftrightarrow> Contains (Error e) ''refused'') \<and>
   (errToReply (Some e) = 0x03 \<longleftrightarrow>
      (\<not> Contains (Error e) ''refused'' \<and> Contains (Error e) ''network is unreachable'')) \<and>
   (errToReply (Some e) = 0x04 \<longleftrightarrow>
      (\<not> Contains (Error e) ''refused'' \<and> \<not> Contains (Error e) ''network is unreachable'')) \<and>
   errToReply (Some e) \<in> {0x03, 0x04, 0x05}"
  by (simp add: errToReply_def successReply_def connectionRefused_def networkUnreachable_def
      hostUnreachable_def Let_def)

text \<open>
  C6 as stated fails: a dial error whose message has ``refused'' but not
  ``connection refused'' is answered with 0x05, not 0x04.
\<close>

theorem errToReply_refused_counterexample:
  "errToReply (Some (ErrorString ''ssh: rejected: connect failed (Connection refused)'')) = 0x05 \<and>
   \<not> Contains (Error (ErrorString ''ssh: rejected: connect failed (Connection refused)''))
        ''connection refused''"
  by (simp add: errToReply_def connectionRefused_def Let_def)

subsection \<open>Tunnel\<close>

lemma FirstError_all_closed:
  "list_all (\<lambda>x. if x = None then True else isClosedConnError goos x) errs
     \<Longrightarrow> FirstError goos errs = None"
  by (induction goos errs rule: FirstError.induct) (auto split: if_splits)

lemma Tunnel_closes_both:
  "Tunnel goos c0 c1 ce s d = (r, s', d') \<Longrightarrow> closes s' = Suc (closes s) \<and> closes d' = Suc (closes d)"
  by (auto simp: Tunnel_def rwc_Close_def Let_def)

lemma Tunnel_only_closed:
  assumes "list_all (\<lambda>x. if x = None then True else isClosedConnError goos x)
             [c0, c1, closeErr s, closeErr d]"
    and "ce = Some Canceled"
  shows "fst (Tunnel goos c0 c1 ce s d) = None"
proof -
  have "list_all (\<lambda>x. if x = None then True else isClosedConnError goos x)
          [c0, c1, closeErr s, closeErr d, None]"
    using assms(1) by simp
  then have "FirstError goos [c0, c1, closeErr s, closeErr d, None] = None"
    by (rule FirstError_all_closed)
  then show ?thesis
    using assms(2) by (simp add: Tunnel_def rwc_Close_def)
qed

text \<open>
  C1 at a failing input. The copy into the source ended on the stream that was closed
  under it, the copy into the destination ended with a broken pipe, both closes succeed
  and the context was cancelled: \<^verbatim>\<open>FirstError\<close> stops at the closed-connection error
  in \<^verbatim>\<open>errs[0]\<close> and returns nil, so the broken pipe in \<^verbatim>\<open>errs[1]\<close> is never
  reported. Both streams are closed.
\<close>

theorem Tunnel_drops_later_error:
  "Tunnel ''linux''
     (Some (OpError ''read''
        ''read tcp 10.0.0.1:1080->10.0.0.2:5000: use of closed network connection'' None))
     (Some (OpError ''write'' ''write tcp 10.0.0.1:4000->10.0.0.3:80: write: broken pipe'' None))
     (Some Canceled)
     \<lparr>closes = 0, closeErr = None\<rparr> \<lparr>closes = 0, closeErr = None\<rparr>
   = (None, \<lparr>closes = 1, closeErr = None\<rparr>, \<lparr>closes = 1, closeErr = None\<rparr>)"
  by (simp add: Tunnel_def rwc_Close_def isClosedConnError_def)

subsection \<open>Address codec\<close>

lemma char_byte: "char_of_byte (byte_of_char c) = c"
  by (simp add: char_of_byte_def byte_of_char_def unat_of_nat)

lemma Uint16_Put: "Uint16 (PutUint16 v) = v"
  unfolding Uint16_def PutUint16_def
  by (rule bit_word_eqI) (auto simp: bit_simps)

lemma port_rt: "0 \<le> p \<Longrightarrow> p \<le> 65535 \<Longrightarrow> uint (Uint16 (PutUint16 (word_of_int p))) = p"
  by (simp add: Uint16_Put uint_word_of_int)


lemma length_PutUint16: "length (PutUint16 v) = 2"
  by (simp add: PutUint16_def)

lemma ReadFull_append: "ReadFull (xs @ rest) (length xs) = Inr (xs, rest)"
  by (cases xs) (auto simp: ReadFull_def)

lemma readPort_PutUint16: "readPort a (PutUint16 v @ rest) = Inr (a\<lparr>Port := uint v\<rparr>, rest)"
  using ReadFull_append [of "PutUint16 v" rest]
  by (simp add: readPort_def length_PutUint16 Uint16_Put)

lemma readAddr_ipv4:
  "length ip = 4 \<Longrightarrow>
   readAddr (ipv4Address # ip @ PutUint16 v @ rest) = Inr (\<lparr>Name = [], IP = Some ip, Port = uint v\<rparr>, rest)"
  using ReadFull_append [of ip "PutUint16 v @ rest"]
  by (simp add: readAddr_def readPort_PutUint16)

lemma readAddr_ipv6:
  "length ip = 16 \<Longrightarrow>
   readAddr (ipv6Address # ip @ PutUint16 v @ rest) = Inr (\<lparr>Name = [], IP = Some ip, Port = uint v\<rparr>, rest)"
  using ReadFull_append [of ip "PutUint16 v @ rest"]
  by (simp add: readAddr_def readPort_PutUint16 ipv6Address_def ipv4Address_def)

lemma map_char_byte: "map (char_of_byte \<circ> byte_of_char) s = s"
  by (induction s) (simp_all add: char_byte)

lemma readAddr_fqdn:
  assumes "length n \<le> 255"
  shows "readAddr (fqdnAddress # of_nat (length n) # map byte_of_char n @ PutUint16 v @ rest)
           = Inr (\<lparr>Name = n, IP = None, Port = uint v\<rparr>, rest)"
proof -
  have len: "unat (of_nat (length n) :: byte) = length (map byte_of_char n)"
    using assms by (simp add: unat_of_nat)
  show ?thesis
    using ReadFull_append [of "map byte_of_char n" "PutUint16 v @ rest"]
    by (simp add: readAddr_def len readPort_PutUint16 map_char_byte fqdnAddress_def
        ipv6Address_def ipv4Address_def del: length_map)
qed

lemma To4_cases:
  "length ip = 4 \<or> length ip = 16 \<Longrightarrow>
   (case To4 ip of Some ip4 \<Rightarrow> length ip4 = 4 \<and> IP_Equal ip4 ip | None \<Rightarrow> length ip = 16)"
  by (auto simp: To4_def IP_Equal_def)

lemma writeAddr_ip:
  assumes "length ip = 4 \<or> length ip = 16"
  shows "writeAddr w (Some \<lparr>Name = n, IP = Some ip, Port = p\<rparr>) =
     Inr (w @ (case To4 ip of Some ip4 \<Rightarrow> ipv4Address # ip4 | None \<Rightarrow> ipv6Address # ip)
            @ PutUint16 (word_of_int p))"
  using assms by (auto simp: writeAddr_def To4_def To16_def)

lemma writeAddr_fqdn:
  assumes "n \<noteq> []" "length n \<le> 255"
  shows "writeAddr w (Some \<lparr>Name = n, IP = None, Port = p\<rparr>) =
     Inr (w @ fqdnAddress # of_nat (length n) # map byte_of_char n @ PutUint16 (word_of_int p))"
  using assms by (auto simp: writeAddr_def)

lemma writeAddr_too_long:
  "255 < length n \<Longrightarrow> writeAddr w (Some \<lparr>Name = n, IP = None, Port = p\<rparr>) = Inl errStringTooLong"
  by (auto simp: writeAddr_def)

lemma splitHostPort_range:
  "splitHostPort f s = Inr (h, n) \<Longrightarrow> 0 \<le> n \<and> n \<le> 65535"
  by (auto simp: splitHostPort_def split: sum.splits if_splits)

lemma splitHostPort_fails:
  "f s = Inr (h, p) \<Longrightarrow> Atoi p = Inr n \<Longrightarrow> n < 0 \<or> 65535 < n \<Longrightarrow>
   splitHostPort f s = Inl (ErrorString (''port number out of range '' @ p))"
  by (auto simp: splitHostPort_def split: sum.splits if_splits)

subsection \<open>UDP relay connection\<close>








lemma Read_short:
  "err rd = None \<Longrightarrow> length (data rd) < 3 \<Longrightarrow>
   udpCustomConn_Read ipstr cc rd b = (Inl (ErrorString ''received packet too small''), b, cc)"
  by (simp add: udpCustomConn_Read_def)

lemma Read_header_ignored:
  "udpCustomConn_Read ipstr cc \<lparr>data = rsv0 # rsv1 # frag # rest, err = None\<rparr> b =
   udpCustomConn_Read ipstr cc \<lparr>data = 0 # 0 # 0 # rest, err = None\<rparr> b"
  by (simp add: udpCustomConn_Read_def)

lemma Read_count:
  "udpCustomConn_Read ipstr cc rd b = (Inr n, b', cc') \<Longrightarrow>
   \<exists>a payload. readAddr (drop 3 (data rd)) = Inr (a, payload) \<and> n = length payload \<and>
      b' = take (length b) payload @ drop (length payload) b"
  by (auto simp: udpCustomConn_Read_def Let_def copy_bytes_def split: option.splits if_splits sum.splits)

lemma Read_first_ip_accepted:
  assumes "targetAddr cc = None" and "IP a = Some ip" and "ip \<noteq> []"
  shows "address_String ipstr (Some a) =
           UDPAddr_String ipstr
             (case targetAddr cc of
                None \<Rightarrow> \<lparr>UDP_IP = IP a, UDP_Port = Port a\<rparr>
              | Some t \<Rightarrow> t)"
  using assms
  by (simp add: address_String_def address_Address_def UDPAddr_String_def ipEmptyString_def Let_def)

lemma Write_wire: "udpCustomConn_Write ipstr sp pa cc b = (res, b', cc') \<Longrightarrow> wire cc' = wire cc"
  by (auto simp: udpCustomConn_Write_def split: option.splits sum.splits if_splits)


subsection \<open>Multiplexer\<close>

lemma handleConnection_first_chunk:
  assumes "c \<noteq> []"
  shows "handleConnection (Inr c # rest) =
     Inr (if hd c = 5 then socks5Proxy else if hd c = 4 then socks4Proxy else httpProxy,
          \<lparr>reader = \<lparr>b_rd = (if length c \<le> defaultBufSize then rest else Inr (drop defaultBufSize c) # rest),
             b_buf = take defaultBufSize c, b_r = 0, b_err = None, b_lastByte = None\<rparr>\<rparr>)"
proof -
  obtain x xs where c: "c = x # xs" using assms by (cases c) auto
  show ?thesis
    unfolding c
    by (simp add: handleConnection_def NewSwitchConn_def NewReader_def SwitchConn_Read_def
        bufio_Read_def defaultBufSize_def copy_out_def UnreadByte_def copy_bytes_def Let_def
        readErr_def take_Suc_conv_app_nth split: if_splits)
qed

subsection \<open>HTTP handler path\<close>

lemma customConn_Read_first:
  "once c = False \<Longrightarrow> req c = Inr bs \<Longrightarrow> bs \<noteq> [] \<Longrightarrow>
   customConn_Read c n = ((take n bs, None), c\<lparr>once := True, initialData := []\<rparr>)"
  by (simp add: customConn_Read_def)


section \<open>Specification properties\<close>

subsection \<open>C2: egress datagrams\<close>

text \<open>
  C2 at a failing input. The relay has latched the source 10.0.0.7:40000 and the target
  8.8.8.8:53, for which \<^verbatim>\<open>net.IP.String\<close>, \<^verbatim>\<open>net.SplitHostPort\<close> and
  \<^verbatim>\<open>net.ParseIP\<close> return what the three functions given here return. \<^verbatim>\<open>Write\<close> of
  the payload CA FE 01 builds the reply prefix 00 00 00 01 08 08 08 08 00 35 and returns
  3 without error, but no datagram reaches the socket (\<open>wire\<close> stays empty) and the
  caller's payload is overwritten with the zero bytes of \<^verbatim>\<open>cc.buf\<close>.
\<close>

theorem udpCustomConn_Write_sends_nothing:
  "udpCustomConn_Write (\<lambda>ip. ''8.8.8.8'') (\<lambda>s. Inr (''8.8.8.8'', ''53''))
      (\<lambda>h. Some [0, 0, 0, 0, 0, 0, 0, 0, 0, 0, 0xff, 0xff, 8, 8, 8, 8])
      \<lparr>PacketConn = \<lparr>closes = 0, closeErr = None\<rparr>, wire = [],
       assocTCPConn = \<lparr>closes = 0, closeErr = None\<rparr>, lock = False,
       sourceAddr = Some \<lparr>UDP_IP = Some [10, 0, 0, 7], UDP_Port = 40000\<rparr>,
       targetAddr = Some \<lparr>UDP_IP = Some [8, 8, 8, 8], UDP_Port = 53\<rparr>,
       replyPrefix = None, buf = replicate maxUdpPacket 0, firstRead = True, frc = 1\<rparr>
      [0xCA, 0xFE, 0x01]
    = (Inr 3, [0, 0, 0],
       \<lparr>PacketConn = \<lparr>closes = 0, closeErr = None\<rparr>, wire = [],
        assocTCPConn = \<lparr>closes = 0, closeErr = None\<rparr>, lock = False,
        sourceAddr = Some \<lparr>UDP_IP = Some [10, 0, 0, 7], UDP_Port = 40000\<rparr>,
        targetAddr = Some \<lparr>UDP_IP = Some [8, 8, 8, 8], UDP_Port = 53\<rparr>,
        replyPrefix = Some [0, 0, 0, 1, 8, 8, 8, 8, 0, 53],
        buf = replicate maxUdpPacket 0, firstRead = True, frc = 1\<rparr>)"
  by (simp add: udpCustomConn_Write_def writeAddrWithStr_def splitHostPort_def Atoi_def
      isDigit_def writeAddr_def To4_def v4InV6Prefix_def ipv4Address_def PutUint16_def
      maxUdpPacket_def copy_bytes_def UDPAddr_String_def Let_def)

subsection \<open>C3: the latched addresses are write-once\<close>



subsection \<open>C4: the datagram header\<close>

text \<open>
  C4 (as amended). A datagram shorter than three bytes is rejected with an error, the
  address is parsed from offset 3 (a parse error is returned as it is), and the first
  three bytes, RSV and FRAG, are never looked at: a datagram with any header bytes is
  handled exactly like the same datagram with a zero header.
\<close>

theorem udpCustomConn_Read_header:
  "(err short = None \<longrightarrow> length (data short) < 3 \<longrightarrow>
      udpCustomConn_Read ipstr cc short b =
        (Inl (ErrorString ''received packet too small''), b, cc)) \<and>
   (err rd = None \<longrightarrow> 3 \<le> length (data rd) \<longrightarrow> readAddr (drop 3 (data rd)) = Inl e \<longrightarrow>
      udpCustomConn_Read ipstr cc rd b = (Inl e, b, cc)) \<and>
   udpCustomConn_Read ipstr cc \<lparr>data = rsv0 # rsv1 # frag # rest, err = None\<rparr> b =
     udpCustomConn_Read ipstr cc \<lparr>data = 0 # 0 # 0 # rest, err = None\<rparr> b"
  using Read_header_ignored [of ipstr cc rsv0 rsv1 frag rest b]
  by (auto simp: Read_short) (simp add: udpCustomConn_Read_def)

text \<open>
  An instance: a two-byte datagram, and a datagram whose address type is 9.
\<close>

theorem udpCustomConn_Read_header_witness:
  "udpCustomConn_Read (\<lambda>ip. ''8.8.8.8'')
      \<lparr>PacketConn = \<lparr>closes = 0, closeErr = None\<rparr>, wire = [],
       assocTCPConn = \<lparr>closes = 0, closeErr = None\<rparr>, lock = False,
       sourceAddr = None, targetAddr = None, replyPrefix = None,
       buf = replicate maxUdpPacket 0, firstRead = False, frc = 0\<rparr>
      \<lparr>data = [0, 0], err = None\<rparr> [7]
    = (Inl (ErrorString ''received packet too small''), [7],
       \<lparr>PacketConn = \<lparr>closes = 0, closeErr = None\<rparr>, wire = [],
        assocTCPConn = \<lparr>closes = 0, closeErr = None\<rparr>, lock = False,
        sourceAddr = None, targetAddr = None, replyPrefix = None,
        buf = replicate maxUdpPacket 0, firstRead = False, frc = 0\<rparr>) \<and>
   udpCustomConn_Read (\<lambda>ip. ''8.8.8.8'')
      \<lparr>PacketConn = \<lparr>closes = 0, closeErr = None\<rparr>, wire = [],
       assocTCPConn = \<lparr>closes = 0, closeErr = None\<rparr>, lock = False,
       sourceAddr = None, targetAddr = None, replyPrefix = None,
       buf = replicate maxUdpPacket 0, firstRead = False, frc = 0\<rparr>
      \<lparr>data = [0, 0, 0, 9, 1, 2], err = None\<rparr> [7]
    = (Inl errUnrecognizedAddrType, [7],
       \<lparr>PacketConn = \<lparr>closes = 0, closeErr = None\<rparr>, wire = [],
        assocTCPConn = \<lparr>closes = 0, closeErr = None\<rparr>, lock = False,
        sourceAddr = None, targetAddr = None, replyPrefix = None,
        buf = replicate maxUdpPacket 0, firstRead = False, frc = 0\<rparr>)"
proof -
  have r: "readAddr (drop 3 [0, 0, 0, 9, 1, 2]) = Inl errUnrecognizedAddrType"
    by (simp add: readAddr_def ipv4Address_def ipv6Address_def fqdnAddress_def)
  show ?thesis
    using udpCustomConn_Read_header [where short = "\<lparr>data = [0, 0], err = None\<rparr>"
        and rd = "\<lparr>data = [0, 0, 0, 9, 1, 2], err = None\<rparr>" and e = errUnrecognizedAddrType
        and ipstr = "\<lambda>ip. ''8.8.8.8''" and b = "[7]"
        and cc = "\<lparr>PacketConn = \<lparr>closes = 0, closeErr = None\<rparr>, wire = [],
          assocTCPConn = \<lparr>closes = 0, closeErr = None\<rparr>, lock = False,
          sourceAddr = None, targetAddr = None, replyPrefix = None,
          buf = replicate maxUdpPacket 0, firstRead = False, frc = 0\<rparr>"] r
    by simp
qed

text \<open>
  C4 as stated fails: a datagram whose FRAG byte is 1 is not dropped. Its address
  latches the target and its payload is delivered to the caller.
\<close>

theorem udpCustomConn_Read_frag_counterexample:
  "udpCustomConn_Read (\<lambda>ip. ''8.8.8.8'')
      \<lparr>PacketConn = \<lparr>closes = 0, closeErr = None\<rparr>, wire = [],
       assocTCPConn = \<lparr>closes = 0, closeErr = None\<rparr>, lock = False,
       sourceAddr = Some \<lparr>UDP_IP = Some [10, 0, 0, 7], UDP_Port = 40000\<rparr>,
       targetAddr = None, replyPrefix = None,
       buf = replicate maxUdpPacket 0, firstRead = False, frc = 0\<rparr>
      \<lparr>data = [0, 0, 1, 1, 8, 8, 8, 8, 0, 53, 0xDE, 0xAD], err = None\<rparr> [0, 0]
    = (Inr 2, [0xDE, 0xAD],
       \<lparr>PacketConn = \<lparr>closes = 0, closeErr = None\<rparr>, wire = [],
        assocTCPConn = \<lparr>closes = 0, closeErr = None\<rparr>, lock = False,
        sourceAddr = Some \<lparr>UDP_IP = Some [10, 0, 0, 7], UDP_Port = 40000\<rparr>,
        targetAddr = Some \<lparr>UDP_IP = Some [8, 8, 8, 8], UDP_Port = 53\<rparr>, replyPrefix = None,
        buf = replicate maxUdpPacket 0, firstRead = True, frc = 1\<rparr>)"
  by (simp add: udpCustomConn_Read_def readAddr_def ipv4Address_def ReadFull_def readPort_def
      Uint16_def address_String_def address_Address_def UDPAddr_String_def ipEmptyString_def
      copy_bytes_def Let_def)

subsection \<open>C5: closing the relay\<close>

text \<open>
  C5 at every input: \<^verbatim>\<open>Close\<close> does not return, whatever the state of the
  connection. With the mutex free it takes it and calls itself, and the inner call waits
  for the mutex for ever; neither the socket nor the control stream is closed.
\<close>

theorem udpCustomConn_Close_never_returns: "udpCustomConn_Close cc = None"
proof (cases "lock cc")
  case True
  then show ?thesis by (subst udpCustomConn_Close.simps) simp
next
  case False
  have "udpCustomConn_Close (cc\<lparr>lock := True\<rparr>) = None"
    by (subst udpCustomConn_Close.simps) simp
  then show ?thesis by (subst udpCustomConn_Close.simps) simp
qed

subsection \<open>C7: the address codec round-trips\<close>

text \<open>
  C7. For a 4-byte or 16-byte IP and a port in [0, 65535], \<^verbatim>\<open>readAddr\<close> of what
  \<^verbatim>\<open>writeAddr\<close> wrote returns the same port, no name, and an IP equal to the one
  written in the sense of \<^verbatim>\<open>net.IP.Equal\<close>: the very same bytes, but for an
  IPv4-mapped 16-byte address, which comes back in its 4-byte form. For a non-empty name
  of at most 255 bytes and such a port the address read back is the one written. Writing
  a name longer than 255 bytes fails with \<^verbatim>\<open>errStringTooLong\<close>. \<^verbatim>\<open>splitHostPort\<close>
  fails when the port text is a number outside [0, 65535], and whenever it succeeds the
  port is inside.
\<close>

theorem addr_round_trip:
  "(length ip = 4 \<or> length ip = 16 \<longrightarrow> 0 \<le> p \<longrightarrow> p \<le> 65535 \<longrightarrow>
      (\<exists>bs ip'. writeAddr [] (Some \<lparr>Name = [], IP = Some ip, Port = p\<rparr>) = Inr bs \<and>
         readAddr bs = Inr (\<lparr>Name = [], IP = Some ip', Port = p\<rparr>, []) \<and>
         IP_Equal ip' ip \<and> ip' = (case To4 ip of Some ip4 \<Rightarrow> ip4 | None \<Rightarrow> ip))) \<and>
   (n \<noteq> [] \<longrightarrow> length n \<le> 255 \<longrightarrow> 0 \<le> p \<longrightarrow> p \<le> 65535 \<longrightarrow>
      (\<exists>bs. writeAddr [] (Some \<lparr>Name = n, IP = None, Port = p\<rparr>) = Inr bs \<and>
         readAddr bs = Inr (\<lparr>Name = n, IP = None, Port = p\<rparr>, []))) \<and>
   (255 < length long \<longrightarrow>
      writeAddr w (Some \<lparr>Name = long, IP = None, Port = p\<rparr>) = Inl errStringTooLong) \<and>
   (f s = Inr (h, ps) \<longrightarrow> Atoi ps = Inr q \<longrightarrow> (q < 0 \<or> 65535 < q) \<longrightarrow>
      (\<exists>e. splitHostPort f s = Inl e)) \<and>
   (splitHostPort f' s' = Inr (h', q') \<longrightarrow> 0 \<le> q' \<and> q' \<le> 65535)"
proof (intro conjI impI)
  assume ip: "length ip = 4 \<or> length ip = 16" and p: "0 \<le> p" "p \<le> 65535"
  let ?ip' = "case To4 ip of Some ip4 \<Rightarrow> ip4 | None \<Rightarrow> ip"
  have up: "uint (word_of_int p :: 16 word) = p"
    using p by (simp add: uint_word_of_int)
  have eq: "IP_Equal ?ip' ip"
    using To4_cases [OF ip] ip by (auto simp: IP_Equal_def split: option.splits)
  have rd: "readAddr ((case To4 ip of Some ip4 \<Rightarrow> ipv4Address # ip4 | None \<Rightarrow> ipv6Address # ip)
               @ PutUint16 (word_of_int p)) = Inr (\<lparr>Name = [], IP = Some ?ip', Port = p\<rparr>, [])"
    using To4_cases [OF ip] readAddr_ipv4 [of _ "word_of_int p" "[]"]
      readAddr_ipv6 [of ip "word_of_int p" "[]"]
    by (auto simp: up split: option.splits)
  show "\<exists>bs ip'. writeAddr [] (Some \<lparr>Name = [], IP = Some ip, Port = p\<rparr>) = Inr bs \<and>
         readAddr bs = Inr (\<lparr>Name = [], IP = Some ip', Port = p\<rparr>, []) \<and>
         IP_Equal ip' ip \<and> ip' = (case To4 ip of Some ip4 \<Rightarrow> ip4 | None \<Rightarrow> ip)"
    using writeAddr_ip [OF ip, of "[]" "[]" p] rd eq by simp
next
  assume n: "n \<noteq> []" "length n \<le> 255" and p: "0 \<le> p" "p \<le> 65535"
  have up: "uint (word_of_int p :: 16 word) = p"
    using p by (simp add: uint_word_of_int)
  show "\<exists>bs. writeAddr [] (Some \<lparr>Name = n, IP = None, Port = p\<rparr>) = Inr bs \<and>
         readAddr bs = Inr (\<lparr>Name = n, IP = None, Port = p\<rparr>, [])"
    using writeAddr_fqdn [OF n, of "[]" p] readAddr_fqdn [OF n(2), of "word_of_int p" "[]"]
    by (simp add: up)
next
  assume "255 < length long"
  then show "writeAddr w (Some \<lparr>Name = long, IP = None, Port = p\<rparr>) = Inl errStringTooLong"
    by (rule writeAddr_too_long)
next
  assume "f s = Inr (h, ps)" "Atoi ps = Inr q" "q < 0 \<or> 65535 < q"
  then show "\<exists>e. splitHostPort f s = Inl e"
    using splitHostPort_fails by blast
next
  assume "splitHostPort f' s' = Inr (h', q')"
  then show "0 \<le> q'" "q' \<le> 65535" using splitHostPort_range by blast+
qed

text \<open>
  An instance: 8.8.8.8:53, example.com:53, a name of 256 bytes, and the port texts
  70000 and 443.
\<close>

theorem addr_round_trip_witness:
  "(\<exists>bs. writeAddr [] (Some \<lparr>Name = [], IP = Some [8, 8, 8, 8], Port = 53\<rparr>) = Inr bs \<and>
      readAddr bs = Inr (\<lparr>Name = [], IP = Some [8, 8, 8, 8], Port = 53\<rparr>, [])) \<and>
   (\<exists>bs. writeAddr [] (Some \<lparr>Name = ''example.com'', IP = None, Port = 53\<rparr>) = Inr bs \<and>
      readAddr bs = Inr (\<lparr>Name = ''example.com'', IP = None, Port = 53\<rparr>, [])) \<and>
   writeAddr [] (Some \<lparr>Name = replicate 256 CHR ''a'', IP = None, Port = 53\<rparr>)
      = Inl errStringTooLong \<and>
   Atoi ''70000'' = Inr 70000 \<and>
   (\<exists>e. splitHostPort (\<lambda>s. Inr (''example.com'', ''70000'')) ''example.com:70000'' = Inl e) \<and>
   splitHostPort (\<lambda>s. Inr (''example.com'', ''443'')) ''example.com:443''
      = Inr (''example.com'', 443)"
proof -
  have a1: "Atoi ''70000'' = Inr 70000"
    by (simp add: Atoi_def isDigit_def)
  have a2: "splitHostPort (\<lambda>s. Inr (''example.com'', ''443'')) ''example.com:443''
      = Inr (''example.com'', 443)"
    by (simp add: splitHostPort_def Atoi_def isDigit_def)
  show ?thesis
    using addr_round_trip [where ip = "[8, 8, 8, 8]" and p = 53 and n = "''example.com''"
        and long = "replicate 256 CHR ''a''" and w = "[]"
        and f = "\<lambda>s. Inr (''example.com'', ''70000'')" and s = "''example.com:70000''"
        and h = "''example.com''" and ps = "''70000''" and q = 70000
        and f' = "\<lambda>s. Inr (''example.com'', ''443'')" and s' = "''example.com:443''"
        and h' = "''example.com''" and q' = 443] a1 a2
    by (auto simp: To4_def)
qed

subsection \<open>C8: protocol probe\<close>

text \<open>
  C8. When the stream delivers a first byte, \<^verbatim>\<open>handleConnection\<close> hands the
  connection to exactly one engine: SOCKS5 for 0x05, SOCKS4 for 0x04, HTTP otherwise;
  and the engine's first read of at least one byte from the connection it was given
  returns, without error, the bytes of the stream from that first byte on.
\<close>

theorem handleConnection_dispatch:
  assumes "c \<noteq> []" and "0 < n"
  shows "\<exists>sc. handleConnection (Inr c # rest) =
           Inr (if hd c = 5 then socks5Proxy else if hd c = 4 then socks4Proxy else httpProxy, sc) \<and>
         fst (SwitchConn_Read sc n) = (take n (take defaultBufSize c), None) \<and>
         hd (fst (fst (SwitchConn_Read sc n))) = hd c"
proof -
  obtain x xs where c: "c = x # xs" using assms(1) by (cases c) auto
  obtain m where n: "n = Suc m" using assms(2) by (cases n) auto
  show ?thesis
    unfolding handleConnection_first_chunk [OF assms(1)]
    by (simp add: SwitchConn_Read_def bufio_Read_def copy_out_def Let_def c n defaultBufSize_def)
qed

text \<open>
  An instance: a client that opens with the SOCKS5 greeting 05 01 00.
\<close>

theorem handleConnection_dispatch_witness:
  "\<exists>sc. handleConnection [Inr [5, 1, 0]] = Inr (socks5Proxy, sc) \<and>
         fst (SwitchConn_Read sc 1) = ([5], None)"
  using handleConnection_dispatch [where c = "[5, 1, 0]" and n = 1 and rest = "[]"]
  by (auto simp: defaultBufSize_def)

text \<open>
  Without a first byte (the first read fails) no engine is called and the read error
  is returned.
\<close>

lemma handleConnection_no_byte:
  "handleConnection [] = Inl EOF \<and> handleConnection (Inl e # rest) = Inl e"
  by (simp add: handleConnection_def NewSwitchConn_def NewReader_def SwitchConn_Read_def
      bufio_Read_def defaultBufSize_def readErr_def Let_def)

subsection \<open>C9: the wrapped client stream\<close>

text \<open>
  C9 at a failing input. The parsed request serializes to 29 bytes and the raw stream
  then holds \<open>a=1\<close>; the caller reads twice into a 16-byte buffer. The first read
  delivers the first 16 bytes of the request, the second already delivers the raw
  stream: the other 13 bytes of the request are never delivered.
\<close>

theorem customConn_Read_truncates:
  "fst (customConn_Reads
         \<lparr>Conn = [Inr (map byte_of_char ''a=1'')],
          req = Inr (map byte_of_char ''POST /f HTTP/1.1'' @ [0x0D, 0x0A]
                     @ map byte_of_char ''Host: h'' @ [0x0D, 0x0A, 0x0D, 0x0A]),
          initialData = [], once = False\<rparr>
         [16, 16])
     = [map byte_of_char ''POST /f HTTP/1.1'', map byte_of_char ''a=1'']"
  by (simp add: customConn_Read_def byte_of_char_def)

subsection \<open>C10: the count returned by Read\<close>

text \<open>
  C10. For every datagram of at least three bytes whose address parses and prints like
  the latched target (or latches it), \<^verbatim>\<open>Read\<close> returns the length of the whole payload
  after the address, whatever the length of the caller's buffer, and the buffer holds the
  payload's first bytes, as many as fit. With a buffer shorter than the payload the
  count exceeds the buffer's length and the number of bytes copied, and the rest of the
  payload is stored nowhere: the connection afterwards differs from the one before only
  in the latched target and the first-read signal.
\<close>

theorem udpCustomConn_Read_count:
  assumes "err rd = None"
    and "3 \<le> length (data rd)"
    and "readAddr (drop 3 (data rd)) = Inr (a, payload)"
    and "address_String ipstr (Some a) =
           UDPAddr_String ipstr
             (case targetAddr cc of
                None \<Rightarrow> \<lparr>UDP_IP = IP a, UDP_Port = Port a\<rparr>
              | Some t \<Rightarrow> t)"
  shows "udpCustomConn_Read ipstr cc rd b =
           (Inr (length payload),
            take (length b) payload @ drop (length payload) b,
            cc\<lparr>targetAddr :=
                  Some (case targetAddr cc of
                          None \<Rightarrow> \<lparr>UDP_IP = IP a, UDP_Port = Port a\<rparr>
                        | Some t \<Rightarrow> t),
                firstRead := True,
                frc := (if firstRead cc then frc cc else Suc (frc cc))\<rparr>) \<and>
         (length b < length payload \<longrightarrow>
            (\<exists>n. fst (udpCustomConn_Read ipstr cc rd b) = Inr n \<and> length b < n) \<and>
            fst (snd (udpCustomConn_Read ipstr cc rd b)) = take (length b) payload \<and>
            length (fst (snd (udpCustomConn_Read ipstr cc rd b))) = length b)"
proof -
  have eq: "udpCustomConn_Read ipstr cc rd b =
           (Inr (length payload),
            take (length b) payload @ drop (length payload) b,
            cc\<lparr>targetAddr :=
                  Some (case targetAddr cc of
                          None \<Rightarrow> \<lparr>UDP_IP = IP a, UDP_Port = Port a\<rparr>
                        | Some t \<Rightarrow> t),
                firstRead := True,
                frc := (if firstRead cc then frc cc else Suc (frc cc))\<rparr>)"
    using assms by (simp add: udpCustomConn_Read_def Let_def copy_bytes_def)
  show ?thesis
    unfolding eq by simp
qed

text \<open>
  An instance: a four-byte payload read into a two-byte buffer returns the count 4.
\<close>

theorem udpCustomConn_Read_count_witness:
  "udpCustomConn_Read (\<lambda>ip. ''8.8.8.8'')
      \<lparr>PacketConn = \<lparr>closes = 0, closeErr = None\<rparr>, wire = [],
       assocTCPConn = \<lparr>closes = 0, closeErr = None\<rparr>, lock = False,
       sourceAddr = Some \<lparr>UDP_IP = Some [10, 0, 0, 7], UDP_Port = 40000\<rparr>,
       targetAddr = None, replyPrefix = None,
       buf = replicate maxUdpPacket 0, firstRead = False, frc = 0\<rparr>
      \<lparr>data = [0, 0, 0, 1, 8, 8, 8, 8, 0, 53, 0xDE, 0xAD, 0xBE, 0xEF], err = None\<rparr> [0, 0]
    = (Inr 4, [0xDE, 0xAD],
       \<lparr>PacketConn = \<lparr>closes = 0, closeErr = None\<rparr>, wire = [],
        assocTCPConn = \<lparr>closes = 0, closeErr = None\<rparr>, lock = False,
        sourceAddr = Some \<lparr>UDP_IP = Some [10, 0, 0, 7], UDP_Port = 40000\<rparr>,
        targetAddr = Some \<lparr>UDP_IP = Some [8, 8, 8, 8], UDP_Port = 53\<rparr>, replyPrefix = None,
        buf = replicate maxUdpPacket 0, firstRead = True, frc = 1\<rparr>) \<and>
   length [0, 0 :: byte] < length [0xDE, 0xAD, 0xBE, 0xEF :: byte]"
proof -
  have r: "readAddr (drop 3 [0, 0, 0, 1, 8, 8, 8, 8, 0, 53, 0xDE, 0xAD, 0xBE, 0xEF])
             = Inr (\<lparr>Name = [], IP = Some [8, 8, 8, 8], Port = 53\<rparr>, [0xDE, 0xAD, 0xBE, 0xEF])"
    by (simp add: readAddr_def ipv4Address_def ReadFull_def readPort_def Uint16_def)
  have s: "address_String (\<lambda>ip. ''8.8.8.8'') (Some \<lparr>Name = [], IP = Some [8, 8, 8, 8], Port = 53\<rparr>)
             = UDPAddr_String (\<lambda>ip. ''8.8.8.8'') \<lparr>UDP_IP = Some [8, 8, 8, 8], UDP_Port = 53\<rparr>"
    by (simp add: address_String_def address_Address_def UDPAddr_String_def ipEmptyString_def)
  show ?thesis
    using udpCustomConn_Read_count [where
        rd = "\<lparr>data = [0, 0, 0, 1, 8, 8, 8, 8, 0, 53, 0xDE, 0xAD, 0xBE, 0xEF], err = None\<rparr>"
        and a = "\<lparr>Name = [], IP = Some [8, 8, 8, 8], Port = 53\<rparr>"
        and payload = "[0xDE, 0xAD, 0xBE, 0xEF]" and ipstr = "\<lambda>ip. ''8.8.8.8''" and b = "[0, 0]"
        and cc = "\<lparr>PacketConn = \<lparr>closes = 0, closeErr = None\<rparr>, wire = [],
          assocTCPConn = \<lparr>closes = 0, closeErr = None\<rparr>, lock = False,
          sourceAddr = Some \<lparr>UDP_IP = Some [10, 0, 0, 7], UDP_Port = 40000\<rparr>,
          targetAddr = None, replyPrefix = None,
          buf = replicate maxUdpPacket 0, firstRead = False, frc = 0\<rparr>"] r s
    by simp
qed

end
